theory Spec2Isabelle
  imports Main "HOL-Library.Sublist"
begin

section \<open>Go string helpers used by the pipeline\<close>

text \<open>
  Go strings are byte sequences; they are modelled as \<open>string\<close> (a list of characters).
  \<open>strings.Contains s substr\<close> reports whether \<open>substr\<close> occurs in \<open>s\<close> as a contiguous
  run of bytes.
\<close>

fun strings_Contains :: "string \<Rightarrow> string \<Rightarrow> bool" where
  "strings_Contains [] substr = (substr = [])"
| "strings_Contains (c # s) substr =
     (prefix substr (c # s) \<or> strings_Contains s substr)"

text \<open>
  \<open>strings.Split s sep\<close> for a non-empty separator cuts \<open>s\<close> at every occurrence of
  \<open>sep\<close>, scanning from the left; the pieces between the cuts are returned in order, so
  the result always has at least one element. \<open>splitFrom sep cur s\<close> carries the piece
  read so far in \<open>cur\<close>. With an empty separator Go explodes the string into its
  characters.
\<close>

function splitFrom :: "string \<Rightarrow> string \<Rightarrow> string \<Rightarrow> string list" where
  "splitFrom sep cur [] = [cur]"
| "splitFrom sep cur (c # s) =
     (if sep \<noteq> [] \<and> prefix sep (c # s)
      then cur # splitFrom sep [] (drop (length sep) (c # s))
      else splitFrom sep (cur @ [c]) s)"
  by pat_completeness auto
termination
  by (relation "measure (\<lambda>(sep, cur, s). length s)") auto

definition strings_Split :: "string \<Rightarrow> string \<Rightarrow> string list" where
  "strings_Split s sep =
     (if sep = [] then map (\<lambda>c. [c]) s else splitFrom sep [] s)"

text \<open>\<open>strings.Join elems sep\<close> concatenates the elements with \<open>sep\<close> between them.\<close>

fun strings_Join :: "string list \<Rightarrow> string \<Rightarrow> string" where
  "strings_Join [] sep = []"
| "strings_Join [x] sep = x"
| "strings_Join (x # y # zs) sep = x @ sep @ strings_Join (y # zs) sep"

section \<open>Configuration model (pkg/hcl2nix/config.go)\<close>

text \<open>
  The block types \<open>GoModule\<close>, \<open>PoetryApp\<close>, \<open>RustApp\<close>, \<open>JsNpmApp\<close> and \<open>ConfigFiles\<close>
  are declared in other files of package \<open>hcl2nix\<close>; the pipeline never looks inside
  them, so they stay opaque.
\<close>

typedecl GoModule
typedecl PoetryApp
typedecl RustApp
typedecl JsNpmApp
typedecl ConfigFiles

record GitHubRelease =
  Owner :: string
  Repo :: string
  App :: string
  Dir :: string

record Packages =
  Development :: "string list"
  Runtime :: "string list"

text \<open>
  \<open>OCIArtifact\<close> is declared outside \<open>config.go\<close> as well. The pipeline reads and writes
  its fields \<open>Name\<close> (the image reference) and \<open>Artifact\<close> (the label it is selected
  by); every other field of the struct is carried along untouched in \<open>Params\<close>.
\<close>

record 'p OCIArtifact =
  Artifact :: string
  Name :: string
  Params :: 'p

record 'p Config =
  Packages :: Packages
  GoModule :: "GoModule option"
  PoetryApp :: "PoetryApp option"
  RustApp :: "RustApp option"
  JsNpmApp :: "JsNpmApp option"
  OCIArtifact :: "'p OCIArtifact list"
  ConfigFiles :: "ConfigFiles list"
  GitHubReleases :: "GitHubRelease list"

section \<open>Platform and artifact resolution (ProcessPlatformAndConfig)\<close>

definition supportedPlatforms :: "string list" where
  "supportedPlatforms = [''linux/amd64'', ''linux/arm64'']"

text \<open>The first loop: is some allowlist entry a substring of the platform string?\<close>

fun platformLoop :: "string \<Rightarrow> string list \<Rightarrow> bool" where
  "platformLoop plat [] = False"
| "platformLoop plat (sp # sps) =
     (if strings_Contains plat sp then True else platformLoop plat sps)"

text \<open>
  The second loop walks the artifacts in document order. Each one is validated first
  (\<open>ec.Validate(conf)\<close>, a method declared in another file, taken as the parameter
  \<open>Validate\<close>: \<open>None\<close> for a nil result, \<open>Some msg\<close> for a message); a message ends the
  whole call with an error. A valid artifact whose label is the requested one ends the
  loop (\<open>break\<close>); any other label is appended to \<open>envNames\<close>. The loop yields the
  artifact found, if any, and the labels collected.
\<close>

fun artifactLoop ::
  "('p Config \<Rightarrow> 'p OCIArtifact \<Rightarrow> string option) \<Rightarrow> 'p Config \<Rightarrow> string \<Rightarrow>
   string list \<Rightarrow> 'p OCIArtifact list \<Rightarrow> string + ('p OCIArtifact option \<times> string list)"
where
  "artifactLoop Validate conf envName envNames [] = Inr (None, envNames)"
| "artifactLoop Validate conf envName envNames (ec # rest) =
     (case Validate conf ec of
        Some errStr \<Rightarrow>
          Inl (''Config for export block '' @ Name ec @ '' is invalid'' @ [CHR 0x0A]
               @ '' Error: '' @ errStr)
      | None \<Rightarrow>
          if Artifact ec = envName then Inr (Some ec, envNames)
          else artifactLoop Validate conf envName (envNames @ [Artifact ec]) rest)"

text \<open>
  Lines 341 to 344: an empty platform string is replaced by the host platform, as
  \<open>FindPlatform\<close> reports it (from package \<open>platformutils\<close>, taken as a parameter
  here); a non-empty one is kept as it is.
\<close>

definition detectPlatform :: "(string \<Rightarrow> string \<times> string) \<Rightarrow> string \<Rightarrow> string" where
  "detectPlatform FindPlatform plat =
     (if plat = [] then (case FindPlatform plat of (tos, tarch) \<Rightarrow> tos @ ''/'' @ tarch)
      else plat)"

text \<open>
  \<open>ProcessPlatformAndConfig\<close> returns an error (\<open>Inl\<close> of its message) or the artifact
  and the platform string. \<open>platform\<close> is the package-level flag variable that the
  error message prints (the function's own argument is \<open>plat\<close>).
\<close>

definition ProcessPlatformAndConfig ::
  "(string \<Rightarrow> string \<times> string) \<Rightarrow> ('p Config \<Rightarrow> 'p OCIArtifact \<Rightarrow> string option) \<Rightarrow>
   string \<Rightarrow> 'p Config \<Rightarrow> string \<Rightarrow> string \<Rightarrow> string + ('p OCIArtifact \<times> string)"
where
  "ProcessPlatformAndConfig FindPlatform Validate platform conf plat envName =
     (let plat' = detectPlatform FindPlatform plat
      in if \<not> platformLoop plat' supportedPlatforms
         then Inl (''Platform '' @ platform @ '' is not supported. Supported platforms are ''
                   @ strings_Join supportedPlatforms '', '')
         else (case artifactLoop Validate conf envName [] (OCIArtifact conf) of
                 Inl err \<Rightarrow> Inl err
               | Inr (None, envNames) \<Rightarrow>
                   Inl (''error: No such environment found. Valid oci environment that can be built are: ''
                        @ strings_Join envNames '', '')
               | Inr (Some artifact, envNames) \<Rightarrow> Inr (artifact, plat')))"

section \<open>Tag mutation and build target naming\<close>

text \<open>
  \<open>getNewName\<close> returns a name and an error that is always nil; the result type keeps
  the error channel. The branch for an empty \<open>parts\<close> is kept as the source has it.
\<close>

definition getNewName :: "'p OCIArtifact \<Rightarrow> string \<Rightarrow> string + string" where
  "getNewName artifact tag =
     (if strings_Contains (Name artifact) '':''
      then (case strings_Split (Name artifact) '':'' of
              p # ps \<Rightarrow> Inr (p @ '':'' @ tag)
            | [] \<Rightarrow> Inr (Name artifact @ '':'' @ tag))
      else Inr (Name artifact @ '':'' @ tag))"

text \<open>
  \<open>genOCIAttrName\<close> reads the package-level flag \<open>devDeps\<close>; it is the first parameter
  here. The \<open>artifact\<close> argument is the last one, as in the source.
\<close>

definition genOCIAttrName :: "bool \<Rightarrow> string \<Rightarrow> string \<Rightarrow> 'p OCIArtifact \<Rightarrow> string" where
  "genOCIAttrName devDeps env platform artifact =
     (let arch = (if platform = ''linux/amd64'' then ''x86_64-linux''
                  else if platform = ''linux/arm64'' then ''aarch64-linux''
                  else ''unknown'');
          base = ''bsf/.#ociImages.'' @ arch @ ''.ociImage_'' @ env @ ''_''
      in if env = ''pkgs''
         then (if devDeps then base @ ''dev-as-dir'' else base @ ''runtime-as-dir'')
         else (if devDeps then base @ ''app_with_dev-as-dir'' else base @ ''app-as-dir''))"

section \<open>Effects: printed lines, file writes, external tools\<close>

text \<open>
  The command prints styled lines, writes files and drives external tools, and stops
  with \<open>os.Exit\<close>. A run is modelled by its trace of events together with the exit status
  of the process (0 when \<open>Run\<close> returns normally).
\<close>

datatype style = HintStyle | ErrorStyle | SucessStyle | HighlightStyle

text \<open>
  The external tool calls of the build, each with the string arguments the command
  passes: the paths staged and ignored, the Builder's output path and attribute, the lock
  file's application name with the output directory and symlink, the same with the image
  name and the target operating system and architecture for artifact generation, and the
  daemon endpoint, result path and image name of the distribution steps.
\<close>

datatype extcall =
    GetBSFInitializers
  | Generate
  | GitAdd string
  | GitIgnore string
  | NixBuild string string
  | GetRuntimeClosureGraph string string string
  | GenerateArtifcats string string string string string
  | LoadDocker string string string
  | LoadPodman string string
  | Push string string

datatype event =
    Println style "string list"
  | WriteFile string string
  | Call extcall

type_synonym outcome = "event list \<times> nat"

text \<open>
  Everything the command calls in other packages is a field of the world it runs in:
  the file system reads and the outcome of each write, the HCL parser and encoder, the
  Dockerfile rewriter, the JSON decoder (yielding the lock file's \<open>App.Name\<close>), platform
  detection, artifact validation, the Docker context lookups, and the outcome
  (\<open>None\<close> for success, \<open>Some\<close> error message) of each external tool call. Each of
  them is a function: the calls are taken to return.
\<close>

record 'p world =
  os_ReadFile :: "string \<Rightarrow> string + string"
  os_Open :: "string \<Rightarrow> string + string"
  os_WriteFile :: "string \<Rightarrow> string \<Rightarrow> string option"
  ReadConfig :: "string \<Rightarrow> string + 'p Config"
  hclEncode :: "'p Config \<Rightarrow> string + string"
  ModifyDockerfile :: "string \<Rightarrow> bool \<Rightarrow> string \<Rightarrow> string + string list"
  json_Unmarshal :: "string \<Rightarrow> string + string"
  FindPlatform :: "string \<Rightarrow> string \<times> string"
  Validate :: "'p Config \<Rightarrow> 'p OCIArtifact \<Rightarrow> string option"
  GetCurrentContext :: "string \<times> string option"
  ReadContextEndpoints :: "(string \<Rightarrow> string option) option \<times> string option"
  external :: "extcall \<Rightarrow> string option"

definition andThen :: "event list \<Rightarrow> outcome \<Rightarrow> outcome" where
  "andThen evs k = (case k of (tr, code) \<Rightarrow> (evs @ tr, code))"

definition fatal :: "string \<Rightarrow> string \<Rightarrow> outcome" where
  "fatal label err = ([Println ErrorStyle [label, err]], 1)"

definition callExt :: "'p world \<Rightarrow> extcall \<Rightarrow> string \<Rightarrow> outcome \<Rightarrow> outcome" where
  "callExt w c label k =
     (case external w c of
        Some err \<Rightarrow> ([Call c, Println ErrorStyle [label, err]], 1)
      | None \<Rightarrow> andThen [Call c] k)"

section \<open>Reading and rewriting the configuration document (pkg/hcl2nix/config.go)\<close>

definition ReadHclFile :: "'p world \<Rightarrow> string \<Rightarrow> string + 'p Config" where
  "ReadHclFile w fileName =
     (case os_ReadFile w fileName of
        Inl err \<Rightarrow> Inl (''error: '' @ err)
      | Inr data \<Rightarrow>
          (case ReadConfig w data of
             Inl dstErr \<Rightarrow> Inl dstErr
           | Inr conf \<Rightarrow> Inr conf))"

definition WriteConfig :: "'p world \<Rightarrow> 'p Config \<Rightarrow> string + string" where
  "WriteConfig w config =
     (case hclEncode w config of
        Inl err \<Rightarrow> Inl err
      | Inr buf \<Rightarrow> Inr buf)"

text \<open>
  The loop of \<open>ModifyConfig\<close>: the first artifact whose \<open>Name\<close> is \<open>oldName\<close> is replaced
  in place and the loop stops; the flag says whether that happened.
\<close>

fun modifyLoop ::
  "string \<Rightarrow> 'p OCIArtifact \<Rightarrow> 'p OCIArtifact list \<Rightarrow> 'p OCIArtifact list \<times> bool"
where
  "modifyLoop oldName artifact [] = ([], False)"
| "modifyLoop oldName artifact (existingArtifact # rest) =
     (if Name existingArtifact = oldName then (artifact # rest, True)
      else (case modifyLoop oldName artifact rest of
              (rest', updated) \<Rightarrow> (existingArtifact # rest', updated)))"

text \<open>
  \<open>ModifyConfig\<close> returns its error, the configuration as it is in memory afterwards
  (the source updates it through the pointer), and the file writes it attempted.
\<close>

definition ModifyConfig ::
  "'p world \<Rightarrow> string \<Rightarrow> 'p OCIArtifact \<Rightarrow> 'p Config \<Rightarrow>
   string option \<times> 'p Config \<times> event list"
where
  "ModifyConfig w oldName artifact config =
     (case modifyLoop oldName artifact (OCIArtifact config) of
        (arts, updated) \<Rightarrow>
          (let config' = config\<lparr>OCIArtifact := arts\<rparr>
           in if updated
              then (case WriteConfig w config' of
                      Inl err \<Rightarrow> (Some err, config', [])
                    | Inr buf \<Rightarrow>
                        (case os_WriteFile w ''bsf.hcl'' buf of
                           Some err \<Rightarrow> (Some err, config', [WriteFile ''bsf.hcl'' buf])
                         | None \<Rightarrow> (None, config', [WriteFile ''bsf.hcl'' buf])))
              else (None, config', [])))"

section \<open>The oci command (OCICmd)\<close>

text \<open>
  Lines 382 to 387 of \<open>modifyDockerfileWithTag\<close>: the file the patcher reads and rewrites.
\<close>

definition dockerfilePath :: "string \<Rightarrow> string" where
  "dockerfilePath path = (if path \<noteq> [] then path @ ''/Dockerfile'' else ''./Dockerfile'')"

definition modifyDockerfileWithTag ::
  "'p world \<Rightarrow> string \<Rightarrow> string \<Rightarrow> bool \<Rightarrow> string option \<times> event list"
where
  "modifyDockerfileWithTag w path tag devDeps =
     (case os_Open w (dockerfilePath path) of
        Inl err \<Rightarrow> (Some err, [])
      | Inr file \<Rightarrow>
          (case ModifyDockerfile w file devDeps tag of
             Inl err \<Rightarrow> (Some err, [])
           | Inr resLines \<Rightarrow>
               (let data = strings_Join resLines [CHR 0x0A]
                in case os_WriteFile w (dockerfilePath path) data of
                     Some err \<Rightarrow> (Some err, [WriteFile (dockerfilePath path) data])
                   | None \<Rightarrow> (None, [WriteFile (dockerfilePath path) data]))))"

text \<open>The package-level flag variables of the command.\<close>

record flags =
  platform :: string
  "output" :: string
  tag :: string
  path :: string
  push :: bool
  loadDocker :: bool
  loadPodman :: bool
  devDeps :: bool
  dfSwap :: bool

text \<open>
  Lines 187 to 200 of \<open>Run\<close>: with a tag and without \<open>--df-swap\<close>, the artifact is renamed
  and the configuration rewritten. The result is the error (if any), the artifact and
  the configuration as they are afterwards, and the writes attempted.
\<close>

definition mutateStage ::
  "'p world \<Rightarrow> flags \<Rightarrow> 'p OCIArtifact \<Rightarrow> 'p Config \<Rightarrow>
   string option \<times> 'p OCIArtifact \<times> 'p Config \<times> event list"
where
  "mutateStage w f artifact conf =
     (if tag f \<noteq> [] \<and> \<not> dfSwap f
      then (case getNewName artifact (tag f) of
              Inl err \<Rightarrow> (Some err, artifact, conf, [])
            | Inr newName \<Rightarrow>
                (let oldName = Name artifact;
                     artifact' = artifact\<lparr>Name := newName\<rparr>
                 in case ModifyConfig w oldName artifact' conf of
                      (err, conf', evs) \<Rightarrow> (err, artifact', conf', evs)))
      else (None, artifact, conf, []))"

text \<open>Lines 202 to 213: the body of \<open>if dfSwap\<close>, which always ends in \<open>os.Exit(1)\<close>.\<close>

definition patchStage :: "'p world \<Rightarrow> flags \<Rightarrow> outcome" where
  "patchStage w f =
     (if tag f \<noteq> []
      then (case modifyDockerfileWithTag w (path f) (tag f) (devDeps f) of
              (Some err, evs) \<Rightarrow> andThen evs (fatal ''error: '' err)
            | (None, evs) \<Rightarrow>
                (evs @ [Println SucessStyle [''dockerfile succesfully updated with tag:'', tag f]], 1))
      else ([Println HintStyle [''hint:'', ''use --tag flag to define a tag'']], 1))"

text \<open>Lines 327 to 335, 317 to 325 and 281 to 315: the three distribution branches.\<close>

definition pushStage :: "'p world \<Rightarrow> flags \<Rightarrow> string \<Rightarrow> 'p OCIArtifact \<Rightarrow> outcome" where
  "pushStage w f out artifact =
     (if push f
      then andThen [Println HighlightStyle [''Pushing image to registry...'']]
             (callExt w (Push (out @ ''/result'') (Name artifact)) ''error:''
                ([Println SucessStyle [''Image '' @ Name artifact @ '' pushed to registry'']], 0))
      else ([], 0))"

definition podmanStage :: "'p world \<Rightarrow> flags \<Rightarrow> string \<Rightarrow> 'p OCIArtifact \<Rightarrow> outcome" where
  "podmanStage w f out artifact =
     (if loadPodman f
      then andThen [Println HighlightStyle [''Loading image to podman...'']]
             (callExt w (LoadPodman (out @ ''/result'') (Name artifact)) ''error:''
                (andThen [Println SucessStyle [''Image '' @ Name artifact @ '' loaded to podman'']]
                   (pushStage w f out artifact)))
      else pushStage w f out artifact)"

definition dockerStage :: "'p world \<Rightarrow> flags \<Rightarrow> string \<Rightarrow> 'p OCIArtifact \<Rightarrow> outcome" where
  "dockerStage w f out artifact =
     (if loadDocker f
      then andThen [Println HighlightStyle [''Loading image to docker daemon...'']]
        (case GetCurrentContext w of (currentContext, err1) \<Rightarrow>
         case ReadContextEndpoints w of (contextEP, err2) \<Rightarrow>
           (let expectedInstall = (err1 = None \<and> err2 = None);
                currentContext' = (if currentContext = [] then ''default'' else currentContext);
                contextEP' = (case contextEP of None \<Rightarrow> (\<lambda>k. None) | Some m \<Rightarrow> m);
                endpoint = (case contextEP' currentContext' of
                              None \<Rightarrow> ''unix:///var/run/docker.sock''
                            | Some ep \<Rightarrow> ep);
                c = LoadDocker endpoint (out @ ''/result'') (Name artifact)
            in case external w c of
                 Some err \<Rightarrow>
                   ([Call c, Println ErrorStyle [''error:'', err]]
                    @ (if \<not> expectedInstall
                       then [Println ErrorStyle [''error:'', ''Is Docker installed?'']] else []), 1)
               | None \<Rightarrow>
                   andThen [Call c, Println SucessStyle
                              [''Image '' @ Name artifact @ '' loaded to docker daemon'']]
                     (podmanStage w f out artifact)))
      else podmanStage w f out artifact)"

text \<open>
  Lines 215 to 279: workspace preparation, the Builder, the lock file, the closure graph
  and artifact generation; \<open>platform f\<close> is already the resolved platform here.
\<close>

definition buildStages :: "'p world \<Rightarrow> flags \<Rightarrow> 'p OCIArtifact \<Rightarrow> outcome" where
  "buildStages w f artifact =
     callExt w GetBSFInitializers ''error: ''
    (callExt w Generate ''error: ''
    (let out = (if output f = [] then ''bsf-result'' else output f);
         symlink = ''/result''
     in callExt w (GitAdd ''bsf/'') ''error: ''
       (callExt w (GitIgnore (out @ ''/'')) ''error: ''
       (callExt w (NixBuild (out @ symlink)
                     (genOCIAttrName (devDeps f) (Artifact artifact) (platform f) artifact))
          ''error: ''
       (andThen [Println HighlightStyle [''Generating artifacts...'']]
       (case os_ReadFile w ''bsf.lock'' of
          Inl err \<Rightarrow> fatal ''error:'' err
        | Inr lockData \<Rightarrow>
       (case json_Unmarshal w lockData of
          Inl err \<Rightarrow> fatal ''error:'' err
        | Inr appName \<Rightarrow>
       callExt w (GetRuntimeClosureGraph appName out symlink) ''error:''
       (case FindPlatform w (platform f) of (tos, tarch) \<Rightarrow>
       callExt w (GenerateArtifcats out symlink (Name artifact) tos tarch) ''error:''
       (andThen [Println SucessStyle
                   [''Build completed successfully, please check the '' @ out @ '' directory'']]
       (dockerStage w f out artifact))))))))))"

text \<open>The \<open>Run\<close> function of \<open>OCICmd\<close>, from its flags and positional arguments.\<close>

definition OCICmd :: "'p world \<Rightarrow> flags \<Rightarrow> string list \<Rightarrow> outcome" where
  "OCICmd w f args =
     (case args of
        [] \<Rightarrow> ([Println HintStyle
                 [''hint:'', ''run `bsf oci <environment name>` to build an OCI image'']], 1)
      | arg0 # _ \<Rightarrow>
          (case ReadHclFile w ''bsf.hcl'' of
             Inl err \<Rightarrow> fatal ''error: '' err
           | Inr conf \<Rightarrow>
               (case ProcessPlatformAndConfig (FindPlatform w) (Validate w) (platform f)
                       conf (platform f) arg0 of
                  Inl err \<Rightarrow> fatal ''error: '' err
                | Inr (artifact, p) \<Rightarrow>
                    (case mutateStage w f artifact conf of
                       (Some err, artifact', conf', evs) \<Rightarrow> andThen evs (fatal ''error: '' err)
                     | (None, artifact', conf', evs) \<Rightarrow>
                         andThen evs
                           (if dfSwap f then patchStage w f
                            else buildStages w (f\<lparr>platform := p\<rparr>) artifact')))))"

section \<open>Example inputs\<close>

text \<open>
  Concrete inputs on which the theorems below are instantiated: artifacts without extra
  parameters, a configuration holding only artifacts, a \<open>linux/amd64\<close> host, a
  validation that rejects an artifact with an empty \<open>Name\<close>, and a world in which the
  configuration document does not exist.
\<close>

definition exArtifact :: "string \<Rightarrow> string \<Rightarrow> unit OCIArtifact" where
  "exArtifact label name = \<lparr>Artifact = label, Name = name, Params = ()\<rparr>"

definition exConfig :: "unit OCIArtifact list \<Rightarrow> unit Config" where
  "exConfig arts =
     \<lparr>Packages = \<lparr>Development = [], Runtime = []\<rparr>, GoModule = None, PoetryApp = None,
      RustApp = None, JsNpmApp = None, OCIArtifact = arts, ConfigFiles = [],
      GitHubReleases = []\<rparr>"

definition exFindPlatform :: "string \<Rightarrow> string \<times> string" where
  "exFindPlatform p = (''linux'', ''amd64'')"

definition exValidate :: "unit Config \<Rightarrow> unit OCIArtifact \<Rightarrow> string option" where
  "exValidate conf ec = (if Name ec = [] then Some ''name is required'' else None)"

definition exReadConfig :: "unit OCIArtifact list \<Rightarrow> string \<Rightarrow> string + unit Config" where
  "exReadConfig arts data = Inr (exConfig arts)"

definition exNoFile :: "string \<Rightarrow> string + string" where
  "exNoFile name = Inl (''open '' @ name @ '': no such file or directory'')"

definition exFile :: "string \<Rightarrow> string + string" where
  "exFile name = Inr []"

definition exWriteOk :: "string \<Rightarrow> string \<Rightarrow> string option" where
  "exWriteOk name data = None"

definition exEncode :: "unit Config \<Rightarrow> string + string" where
  "exEncode config = Inr (concat (map Name (OCIArtifact config)))"

definition exModifyDockerfile :: "string \<Rightarrow> bool \<Rightarrow> string \<Rightarrow> string + string list" where
  "exModifyDockerfile file dev t = Inr [''FROM base:'' @ t]"

definition exUnmarshal :: "string \<Rightarrow> string + string" where
  "exUnmarshal data = Inr ''app''"

definition exExternal :: "extcall \<Rightarrow> string option" where
  "exExternal c = None"

definition exWorld :: "(string \<Rightarrow> string + string) \<Rightarrow> unit OCIArtifact list \<Rightarrow> unit world" where
  "exWorld readFile arts =
     \<lparr>os_ReadFile = readFile, os_Open = exFile, os_WriteFile = exWriteOk,
      ReadConfig = exReadConfig arts, hclEncode = exEncode,
      ModifyDockerfile = exModifyDockerfile, json_Unmarshal = exUnmarshal,
      FindPlatform = exFindPlatform, Validate = exValidate,
      GetCurrentContext = ([], None), ReadContextEndpoints = (None, None),
      external = exExternal\<rparr>"

definition exFlags :: "string \<Rightarrow> bool \<Rightarrow> flags" where
  "exFlags t swap =
     \<lparr>platform = [], output = [], tag = t, path = [], push = False, loadDocker = False,
      loadPodman = False, devDeps = False, dfSwap = swap\<rparr>"

section \<open>Facts about the string helpers\<close>

lemma strings_Contains_char: "strings_Contains s [c] = (c \<in> set s)"
  by (induction s) auto

lemma splitFrom_char_hd:
  "\<exists>ps. splitFrom [c] cur s = (cur @ takeWhile (\<lambda>x. x \<noteq> c) s) # ps"
proof (induction s arbitrary: cur)
  case Nil
  then show ?case by simp
next
  case (Cons a s)
  show ?case
  proof (cases "a = c")
    case True
    then show ?thesis by simp
  next
    case False
    from Cons [of "cur @ [a]"] obtain ps where
      "splitFrom [c] (cur @ [a]) s = ((cur @ [a]) @ takeWhile (\<lambda>x. x \<noteq> c) s) # ps"
      by blast
    with False show ?thesis by simp
  qed
qed

lemma strings_Split_char:
  "\<exists>ps. strings_Split s [c] = takeWhile (\<lambda>x. x \<noteq> c) s # ps"
  using splitFrom_char_hd [of c "[]" s] by (simp add: strings_Split_def)

section \<open>Facts about platform and artifact resolution\<close>

lemma strings_Contains_sublist: "strings_Contains s substr = sublist substr s"
  by (induction s) (auto simp: sublist_Cons_right)

lemma platformLoop_supported:
  "platformLoop p supportedPlatforms = (\<exists>sp \<in> set supportedPlatforms. sublist sp p)"
  by (simp add: supportedPlatforms_def strings_Contains_sublist)

lemma strings_Join_supported:
  "strings_Join supportedPlatforms '', '' = ''linux/amd64, linux/arm64''"
  by (simp add: supportedPlatforms_def)

lemma ProcessPlatformAndConfig_supported:
  "\<exists>sp \<in> set supportedPlatforms. sublist sp (detectPlatform FP plat) \<Longrightarrow>
   ProcessPlatformAndConfig FP V pf conf plat envName =
     (case artifactLoop V conf envName [] (OCIArtifact conf) of
        Inl err \<Rightarrow> Inl err
      | Inr (None, envNames) \<Rightarrow>
          Inl (''error: No such environment found. Valid oci environment that can be built are: ''
               @ strings_Join envNames '', '')
      | Inr (Some artifact, envNames) \<Rightarrow> Inr (artifact, detectPlatform FP plat))"
proof -
  assume "\<exists>sp \<in> set supportedPlatforms. sublist sp (detectPlatform FP plat)"
  then have "platformLoop (detectPlatform FP plat) supportedPlatforms"
    using platformLoop_supported by blast
  then show ?thesis
    by (simp add: ProcessPlatformAndConfig_def Let_def)
qed

lemma ProcessPlatformAndConfig_unsupported:
  "\<not> (\<exists>sp \<in> set supportedPlatforms. sublist sp (detectPlatform FP plat)) \<Longrightarrow>
   ProcessPlatformAndConfig FP V pf conf plat envName =
     Inl (''Platform '' @ pf @ '' is not supported. Supported platforms are linux/amd64, linux/arm64'')"
proof -
  assume "\<not> (\<exists>sp \<in> set supportedPlatforms. sublist sp (detectPlatform FP plat))"
  then have "\<not> platformLoop (detectPlatform FP plat) supportedPlatforms"
    using platformLoop_supported by blast
  then show ?thesis
    by (simp add: ProcessPlatformAndConfig_def Let_def strings_Join_supported)
qed

lemma artifactLoop_invalid:
  "\<forall>a \<in> set pre. V conf a = None \<and> Artifact a \<noteq> envName \<Longrightarrow> V conf ec = Some msg \<Longrightarrow>
   artifactLoop V conf envName acc (pre @ ec # post) =
     Inl (''Config for export block '' @ Name ec @ '' is invalid'' @ [CHR 0x0A] @ '' Error: '' @ msg)"
  by (induction pre arbitrary: acc) auto

lemma artifactLoop_found:
  "\<forall>a \<in> set pre. V conf a = None \<and> Artifact a \<noteq> envName \<Longrightarrow> V conf m = None \<Longrightarrow>
   Artifact m = envName \<Longrightarrow>
   artifactLoop V conf envName acc (pre @ m # post) = Inr (Some m, acc @ map Artifact pre)"
  by (induction pre arbitrary: acc) auto

lemma artifactLoop_none:
  "\<forall>a \<in> set xs. V conf a = None \<and> Artifact a \<noteq> envName \<Longrightarrow>
   artifactLoop V conf envName acc xs = Inr (None, acc @ map Artifact xs)"
  by (induction xs arbitrary: acc) auto

lemma artifactLoop_Some_D:
  "artifactLoop V conf envName acc xs = Inr (Some m, names) \<Longrightarrow>
   \<exists>pre post. xs = pre @ m # post \<and> (\<forall>a \<in> set pre. V conf a = None \<and> Artifact a \<noteq> envName)
      \<and> V conf m = None \<and> Artifact m = envName"
proof (induction xs arbitrary: acc)
  case Nil
  then show ?case by simp
next
  case (Cons x xs)
  show ?case
  proof (cases "V conf x")
    case (Some e)
    with Cons.prems show ?thesis by simp
  next
    case None
    show ?thesis
    proof (cases "Artifact x = envName")
      case True
      with None Cons.prems have "x = m" by simp
      with None True have "x # xs = [] @ m # xs \<and> (\<forall>a \<in> set []. V conf a = None \<and> Artifact a \<noteq> envName)
        \<and> V conf m = None \<and> Artifact m = envName" by simp
      then show ?thesis by blast
    next
      case False
      with None Cons.prems have "artifactLoop V conf envName (acc @ [Artifact x]) xs = Inr (Some m, names)"
        by simp
      from Cons.IH [OF this] obtain pre post where
        h: "xs = pre @ m # post" "\<forall>a \<in> set pre. V conf a = None \<and> Artifact a \<noteq> envName"
           "V conf m = None" "Artifact m = envName" by blast
      with None False have "x # xs = (x # pre) @ m # post \<and>
         (\<forall>a \<in> set (x # pre). V conf a = None \<and> Artifact a \<noteq> envName)
         \<and> V conf m = None \<and> Artifact m = envName" by simp
      then show ?thesis by blast
    qed
  qed
qed

lemma first_invalid_split:
  "bad \<in> set pre \<Longrightarrow> V conf bad \<noteq> None \<Longrightarrow>
   \<exists>pre1 ec post1 msg. pre = pre1 @ ec # post1 \<and> (\<forall>a \<in> set pre1. V conf a = None)
      \<and> V conf ec = Some msg"
proof (induction pre)
  case Nil
  then show ?case by simp
next
  case (Cons x xs)
  show ?case
  proof (cases "V conf x")
    case (Some e)
    then have "x # xs = [] @ x # xs \<and> (\<forall>a \<in> set []. V conf a = None) \<and> V conf x = Some e" by simp
    then show ?thesis by blast
  next
    case None
    with Cons.prems have "bad \<in> set xs" by auto
    from Cons.IH [OF this Cons.prems(2)] obtain pre1 ec post1 msg where
      "xs = pre1 @ ec # post1" "\<forall>a \<in> set pre1. V conf a = None" "V conf ec = Some msg" by blast
    with None have "x # xs = (x # pre1) @ ec # post1 \<and> (\<forall>a \<in> set (x # pre1). V conf a = None)
       \<and> V conf ec = Some msg" by simp
    then show ?thesis by blast
  qed
qed

lemma artifactLoop_error_shape:
  "artifactLoop V conf envName acc xs = Inl err \<Longrightarrow> \<exists>rest. err = CHR ''C'' # rest"
  by (induction xs arbitrary: acc) (auto split: option.splits if_splits)

section \<open>Facts about rewriting the configuration and patching the Dockerfile\<close>

lemma modifyLoop_absent:
  "oldName \<notin> Name ` set xs \<Longrightarrow> modifyLoop oldName artifact xs = (xs, False)"
  by (induction xs) auto

lemma modifyLoop_updated:
  "modifyLoop oldName artifact xs = (ys, True) \<Longrightarrow>
   \<exists>pre e post. xs = pre @ e # post \<and> Name e = oldName \<and> oldName \<notin> Name ` set pre
      \<and> ys = pre @ artifact # post"
proof (induction xs arbitrary: ys)
  case Nil
  then show ?case by simp
next
  case (Cons x xs)
  show ?case
  proof (cases "Name x = oldName")
    case True
    with Cons.prems have "x # xs = [] @ x # xs \<and> Name x = oldName \<and> oldName \<notin> Name ` set []
        \<and> ys = [] @ artifact # xs" by simp
    then show ?thesis by blast
  next
    case False
    with Cons.prems obtain ys' where m: "modifyLoop oldName artifact xs = (ys', True)" "ys = x # ys'"
      by (auto split: prod.splits)
    from Cons.IH [OF m(1)] obtain pre e post where
      "xs = pre @ e # post" "Name e = oldName" "oldName \<notin> Name ` set pre" "ys' = pre @ artifact # post"
      by blast
    with False m(2) have "x # xs = (x # pre) @ e # post \<and> Name e = oldName
        \<and> oldName \<notin> Name ` set (x # pre) \<and> ys = (x # pre) @ artifact # post" by auto
    then show ?thesis by blast
  qed
qed

lemma mutateStage_dfSwap:
  "dfSwap f \<Longrightarrow> mutateStage w f artifact conf = (None, artifact, conf, [])"
  by (simp add: mutateStage_def)

lemma dockerfilePath_not_config: "dockerfilePath pth \<noteq> ''bsf.hcl''"
proof
  assume "dockerfilePath pth = ''bsf.hcl''"
  then have "last (dockerfilePath pth) = last ''bsf.hcl''" by simp
  then show False by (simp add: dockerfilePath_def split: if_splits)
qed

lemma modifyDockerfileWithTag_events:
  "modifyDockerfileWithTag w pth t dev = (r, evs) \<Longrightarrow>
   evs = [] \<or> (\<exists>data. evs = [WriteFile (dockerfilePath pth) data])"
  by (auto simp: modifyDockerfileWithTag_def Let_def split: sum.splits option.splits)

lemma patchStage_outcome:
  "patchStage w f = (tr, code) \<Longrightarrow>
   code = 1
   \<and> (tag f = [] \<longrightarrow> tr = [Println HintStyle [''hint:'', ''use --tag flag to define a tag'']])
   \<and> (\<forall>e \<in> set tr. (\<exists>st msg. e = Println st msg)
         \<or> (tag f \<noteq> [] \<and> (\<exists>data. e = WriteFile (dockerfilePath (path f)) data)))"
proof (cases "tag f = []")
  case True
  assume "patchStage w f = (tr, code)"
  with True show ?thesis by (auto simp: patchStage_def)
next
  case False
  assume p: "patchStage w f = (tr, code)"
  obtain r evs where m: "modifyDockerfileWithTag w (path f) (tag f) (devDeps f) = (r, evs)"
    by (cases "modifyDockerfileWithTag w (path f) (tag f) (devDeps f)")
  from modifyDockerfileWithTag_events [OF m] p m False show ?thesis
    by (cases r) (auto simp: patchStage_def andThen_def fatal_def)
qed

lemma OCICmd_dfSwap_run:
  "dfSwap f \<Longrightarrow> OCICmd w f args =
     (case args of
        [] \<Rightarrow> ([Println HintStyle
                 [''hint:'', ''run `bsf oci <environment name>` to build an OCI image'']], 1)
      | arg0 # _ \<Rightarrow>
          (case ReadHclFile w ''bsf.hcl'' of
             Inl err \<Rightarrow> ([Println ErrorStyle [''error: '', err]], 1)
           | Inr conf \<Rightarrow>
               (case ProcessPlatformAndConfig (FindPlatform w) (Validate w) (platform f)
                       conf (platform f) arg0 of
                  Inl err \<Rightarrow> ([Println ErrorStyle [''error: '', err]], 1)
                | Inr r \<Rightarrow> patchStage w f)))"
  by (cases "patchStage w f")
    (auto simp: OCICmd_def mutateStage_dfSwap fatal_def andThen_def
      split: list.splits sum.splits prod.splits)

lemma OCICmd_dfSwap_events:
  assumes swap: "dfSwap f"
  shows "snd (OCICmd w f args) = 1
    \<and> (\<forall>e \<in> set (fst (OCICmd w f args)).
          (\<exists>st msg. e = Println st msg)
          \<or> (tag f \<noteq> [] \<and> (\<exists>data. e = WriteFile (dockerfilePath (path f)) data)))
    \<and> (tag f = [] \<and> args = arg0 # rest \<and> ReadHclFile w ''bsf.hcl'' = Inr conf
         \<and> ProcessPlatformAndConfig (FindPlatform w) (Validate w) (platform f) conf (platform f) arg0
               = Inr r
         \<longrightarrow> fst (OCICmd w f args) = [Println HintStyle [''hint:'', ''use --tag flag to define a tag'']])"
proof -
  obtain tr code where p: "patchStage w f = (tr, code)" by (cases "patchStage w f")
  note po = patchStage_outcome [OF p]
  from po p show ?thesis
    by (auto simp: OCICmd_dfSwap_run [OF swap] split: list.splits sum.splits)
qed

section \<open>Artifact selection\<close>

text \<open>
  C1. Eager validation. Let the platform be supported, let \<open>pre\<close> be the artifacts in
  front of some artifact \<open>m\<close> with none of them carrying the requested label (so \<open>pre\<close> is
  what precedes the first label match, when \<open>m\<close> is that match), and let some artifact
  \<open>bad\<close> of \<open>pre\<close> fail its own validation. Then \<open>ProcessPlatformAndConfig\<close> fails, and
  the error carries the name and the validation message of a failing artifact of \<open>pre\<close>:
  the first one in document order (\<open>ec\<close>, with only valid artifacts \<open>pre1\<close> in front of
  it), which is \<open>bad\<close> itself when \<open>bad\<close> is the only failure. Nothing is assumed about
  \<open>m\<close> or about what follows it: the loop never skips past the failing artifact to a
  matching, valid one.
\<close>

theorem eager_validation:
  assumes plat_ok: "\<exists>sp \<in> set supportedPlatforms. sublist sp (detectPlatform FP plat)"
    and arts: "OCIArtifact conf = pre @ m # post"
    and first: "\<forall>a \<in> set pre. Artifact a \<noteq> envName"
    and bad: "bad \<in> set pre" "V conf bad \<noteq> None"
  shows "\<exists>pre1 ec post1 msg.
           pre = pre1 @ ec # post1 \<and> (\<forall>a \<in> set pre1. V conf a = None) \<and> V conf ec = Some msg
           \<and> ProcessPlatformAndConfig FP V pf conf plat envName =
               Inl (''Config for export block '' @ Name ec @ '' is invalid'' @ [CHR 0x0A]
                    @ '' Error: '' @ msg)"
proof -
  from first_invalid_split [where V = V and conf = conf, OF bad] obtain pre1 ec post1 msg where
    h: "pre = pre1 @ ec # post1" "\<forall>a \<in> set pre1. V conf a = None" "V conf ec = Some msg"
    by blast
  from h(1,2) first have p1: "\<forall>a \<in> set pre1. V conf a = None \<and> Artifact a \<noteq> envName" by simp
  from arts h(1) have "OCIArtifact conf = pre1 @ ec # (post1 @ m # post)" by simp
  with artifactLoop_invalid [where V = V and conf = conf, OF p1 h(3)]
  have "artifactLoop V conf envName [] (OCIArtifact conf) =
     Inl (''Config for export block '' @ Name ec @ '' is invalid'' @ [CHR 0x0A] @ '' Error: '' @ msg)"
    by simp
  with plat_ok have "ProcessPlatformAndConfig FP V pf conf plat envName =
     Inl (''Config for export block '' @ Name ec @ '' is invalid'' @ [CHR 0x0A] @ '' Error: '' @ msg)"
    by (simp add: ProcessPlatformAndConfig_supported)
  with h show ?thesis by blast
qed

theorem eager_validation_witness:
  "ProcessPlatformAndConfig exFindPlatform exValidate []
      (exConfig [exArtifact ''db'' [], exArtifact ''svc'' ''svc:latest'']) [] ''svc'' =
     Inl (''Config for export block  is invalid'' @ [CHR 0x0A] @ '' Error: name is required'')"
proof -
  let ?conf = "exConfig [exArtifact ''db'' [], exArtifact ''svc'' ''svc:latest'']"
  have a: "\<exists>sp \<in> set supportedPlatforms. sublist sp (detectPlatform exFindPlatform [])"
    by (simp add: supportedPlatforms_def detectPlatform_def exFindPlatform_def)
  have b: "OCIArtifact ?conf = [exArtifact ''db'' []] @ exArtifact ''svc'' ''svc:latest'' # []"
    by (simp add: exConfig_def)
  have c: "\<forall>a \<in> set [exArtifact ''db'' []]. Artifact a \<noteq> ''svc''"
    by (simp add: exArtifact_def)
  have d: "exArtifact ''db'' [] \<in> set [exArtifact ''db'' []]" by simp
  have e: "exValidate ?conf (exArtifact ''db'' []) \<noteq> None"
    by (simp add: exValidate_def exArtifact_def)
  from eager_validation [where V = exValidate and pf = "[]", OF a b c d e]
  obtain pre1 ec post1 msg where
    h: "[exArtifact ''db'' []] = pre1 @ ec # post1" "exValidate ?conf ec = Some msg"
       "ProcessPlatformAndConfig exFindPlatform exValidate [] ?conf [] ''svc'' =
          Inl (''Config for export block '' @ Name ec @ '' is invalid'' @ [CHR 0x0A]
               @ '' Error: '' @ msg)"
    by blast
  from h(1) have "ec = exArtifact ''db'' []"
    by (cases pre1) auto
  with h(2,3) show ?thesis
    by (simp add: exValidate_def exArtifact_def)
qed

text \<open>
  C8. Let the platform be supported. If every artifact of the configuration passes its
  validation and none carries the requested label, \<open>ProcessPlatformAndConfig\<close> fails with
  the not-found error, whose message ends with the labels of all artifacts of the
  configuration, in document order, joined by a comma and a space.
\<close>

theorem not_found_lists_labels:
  assumes plat_ok: "\<exists>sp \<in> set supportedPlatforms. sublist sp (detectPlatform FP plat)"
    and all_ok: "\<forall>a \<in> set (OCIArtifact conf). V conf a = None"
    and no_match: "\<forall>a \<in> set (OCIArtifact conf). Artifact a \<noteq> envName"
  shows "ProcessPlatformAndConfig FP V pf conf plat envName =
           Inl (''error: No such environment found. Valid oci environment that can be built are: ''
                @ strings_Join (map Artifact (OCIArtifact conf)) '', '')"
proof -
  from all_ok no_match
  have "\<forall>a \<in> set (OCIArtifact conf). V conf a = None \<and> Artifact a \<noteq> envName" by simp
  from artifactLoop_none [where V = V and conf = conf, OF this, of "[]"]
  have "artifactLoop V conf envName [] (OCIArtifact conf) = Inr (None, map Artifact (OCIArtifact conf))"
    by simp
  with plat_ok show ?thesis
    by (simp add: ProcessPlatformAndConfig_supported)
qed

theorem not_found_lists_labels_witness:
  "ProcessPlatformAndConfig exFindPlatform exValidate []
      (exConfig [exArtifact ''pkgs'' ''base:latest'', exArtifact ''svc'' ''svc:latest'']) [] ''web'' =
     Inl ''error: No such environment found. Valid oci environment that can be built are: pkgs, svc''"
proof -
  let ?conf = "exConfig [exArtifact ''pkgs'' ''base:latest'', exArtifact ''svc'' ''svc:latest'']"
  have a: "\<exists>sp \<in> set supportedPlatforms. sublist sp (detectPlatform exFindPlatform [])"
    by (simp add: supportedPlatforms_def detectPlatform_def exFindPlatform_def)
  have b: "\<forall>a \<in> set (OCIArtifact ?conf). exValidate ?conf a = None"
    by (simp add: exConfig_def exValidate_def exArtifact_def)
  have c: "\<forall>a \<in> set (OCIArtifact ?conf). Artifact a \<noteq> ''web''"
    by (simp add: exConfig_def exArtifact_def)
  from not_found_lists_labels [where V = exValidate and pf = "[]", OF a b c]
  show ?thesis by (simp add: exConfig_def exArtifact_def)
qed

text \<open>
  The loop stops at the first artifact carrying the requested label, so artifacts after
  it are never validated. In the configuration below the second artifact fails its
  validation, and selecting the first one succeeds all the same.
\<close>

theorem later_invalid_artifact_not_checked:
  "exValidate (exConfig [exArtifact ''svc'' ''svc:latest'', exArtifact ''db'' []])
      (exArtifact ''db'' []) = Some ''name is required''
   \<and> ProcessPlatformAndConfig exFindPlatform exValidate ''linux/amd64''
        (exConfig [exArtifact ''svc'' ''svc:latest'', exArtifact ''db'' []]) ''linux/amd64'' ''svc''
      = Inr (exArtifact ''svc'' ''svc:latest'', ''linux/amd64'')"
  by (simp add: ProcessPlatformAndConfig_def detectPlatform_def supportedPlatforms_def
      exConfig_def exArtifact_def exValidate_def)

text \<open>
  C2 (as the code has it). \<open>ProcessPlatformAndConfig\<close> returns the artifact \<open>m\<close> exactly
  when the platform is supported and \<open>m\<close> is the first artifact carrying the requested
  label, \<open>m\<close> passes its validation, and so does every artifact before it. A validation
  error at or before the first match makes selection fail; what comes after the match is
  not looked at.
\<close>

theorem selection_validates_up_to_match:
  "(\<exists>p. ProcessPlatformAndConfig FP V pf conf plat envName = Inr (m, p)) \<longleftrightarrow>
     (\<exists>sp \<in> set supportedPlatforms. sublist sp (detectPlatform FP plat))
     \<and> (\<exists>pre post. OCIArtifact conf = pre @ m # post
           \<and> (\<forall>a \<in> set pre. V conf a = None \<and> Artifact a \<noteq> envName)
           \<and> V conf m = None \<and> Artifact m = envName)"
proof (cases "\<exists>sp \<in> set supportedPlatforms. sublist sp (detectPlatform FP plat)")
  case False
  then show ?thesis
    using ProcessPlatformAndConfig_unsupported [of FP plat V pf conf envName] by simp
next
  case True
  note sup = ProcessPlatformAndConfig_supported [OF True, of V pf conf envName]
  show ?thesis
  proof
    assume "\<exists>p. ProcessPlatformAndConfig FP V pf conf plat envName = Inr (m, p)"
    then obtain names where "artifactLoop V conf envName [] (OCIArtifact conf) = Inr (Some m, names)"
      by (auto simp: sup split: sum.splits option.splits prod.splits)
    from artifactLoop_Some_D [OF this] True
    show "(\<exists>sp \<in> set supportedPlatforms. sublist sp (detectPlatform FP plat))
     \<and> (\<exists>pre post. OCIArtifact conf = pre @ m # post
           \<and> (\<forall>a \<in> set pre. V conf a = None \<and> Artifact a \<noteq> envName)
           \<and> V conf m = None \<and> Artifact m = envName)" by blast
  next
    assume "(\<exists>sp \<in> set supportedPlatforms. sublist sp (detectPlatform FP plat))
     \<and> (\<exists>pre post. OCIArtifact conf = pre @ m # post
           \<and> (\<forall>a \<in> set pre. V conf a = None \<and> Artifact a \<noteq> envName)
           \<and> V conf m = None \<and> Artifact m = envName)"
    then obtain pre post where h: "OCIArtifact conf = pre @ m # post"
        "\<forall>a \<in> set pre. V conf a = None \<and> Artifact a \<noteq> envName"
        "V conf m = None" "Artifact m = envName" by blast
    from artifactLoop_found [where V = V and conf = conf, OF h(2,3,4), of "[]" post] h(1)
    have "artifactLoop V conf envName [] (OCIArtifact conf) = Inr (Some m, map Artifact pre)"
      by simp
    then show "\<exists>p. ProcessPlatformAndConfig FP V pf conf plat envName = Inr (m, p)"
      by (simp add: sup)
  qed
qed

theorem selection_validates_up_to_match_witness:
  "\<exists>p. ProcessPlatformAndConfig exFindPlatform exValidate []
      (exConfig [exArtifact ''pkgs'' ''base:latest'', exArtifact ''svc'' ''svc:latest'',
                 exArtifact ''db'' []]) [] ''svc''
     = Inr (exArtifact ''svc'' ''svc:latest'', p)"
proof -
  let ?conf = "exConfig [exArtifact ''pkgs'' ''base:latest'', exArtifact ''svc'' ''svc:latest'',
                 exArtifact ''db'' []]"
  have a: "\<exists>sp \<in> set supportedPlatforms. sublist sp (detectPlatform exFindPlatform [])"
    by (simp add: supportedPlatforms_def detectPlatform_def exFindPlatform_def)
  have "OCIArtifact ?conf = [exArtifact ''pkgs'' ''base:latest''] @ exArtifact ''svc'' ''svc:latest''
            # [exArtifact ''db'' []]
        \<and> (\<forall>a \<in> set [exArtifact ''pkgs'' ''base:latest''].
              exValidate ?conf a = None \<and> Artifact a \<noteq> ''svc'')
        \<and> exValidate ?conf (exArtifact ''svc'' ''svc:latest'') = None
        \<and> Artifact (exArtifact ''svc'' ''svc:latest'') = ''svc''"
    by (simp add: exConfig_def exValidate_def exArtifact_def)
  then have b: "\<exists>pre post. OCIArtifact ?conf = pre @ exArtifact ''svc'' ''svc:latest'' # post
        \<and> (\<forall>a \<in> set pre. exValidate ?conf a = None \<and> Artifact a \<noteq> ''svc'')
        \<and> exValidate ?conf (exArtifact ''svc'' ''svc:latest'') = None
        \<and> Artifact (exArtifact ''svc'' ''svc:latest'') = ''svc''"
    by blast
  from a b selection_validates_up_to_match [where V = exValidate and conf = ?conf
      and FP = exFindPlatform and plat = "[]" and envName = "''svc''"
      and m = "exArtifact ''svc'' ''svc:latest''" and pf = "[]"]
  show ?thesis by blast
qed

section \<open>Platform validation\<close>

text \<open>
  The empty platform string contains neither allowlist entry, yet resolution succeeds
  on a \<open>linux/amd64\<close> host: the string that is checked is the detected host platform.
\<close>

theorem empty_platform_uses_host:
  "\<not> sublist ''linux/amd64'' [] \<and> \<not> sublist ''linux/arm64'' []
   \<and> ProcessPlatformAndConfig exFindPlatform exValidate []
        (exConfig [exArtifact ''svc'' ''svc:latest'']) [] ''svc''
      = Inr (exArtifact ''svc'' ''svc:latest'', ''linux/amd64'')"
  by (simp add: ProcessPlatformAndConfig_def detectPlatform_def supportedPlatforms_def
      exConfig_def exArtifact_def exValidate_def exFindPlatform_def)

text \<open>
  C5 (as the code has it). The string that is validated is \<open>detectPlatform FP plat\<close>:
  the given string when it is not empty, and otherwise the host platform
  \<open>os/arch\<close> reported by \<open>FindPlatform\<close>. \<open>ProcessPlatformAndConfig\<close> fails with the
  platform error exactly when that string contains neither \<open>linux/amd64\<close> nor
  \<open>linux/arm64\<close> as a substring (containment, not equality), and the message names the
  flag value and lists exactly the two supported platforms.
\<close>

theorem platform_validation_by_containment:
  "((ProcessPlatformAndConfig FP V pf conf plat envName =
      Inl (''Platform '' @ pf
           @ '' is not supported. Supported platforms are linux/amd64, linux/arm64''))
    \<longleftrightarrow> \<not> (sublist ''linux/amd64'' (detectPlatform FP plat)
           \<or> sublist ''linux/arm64'' (detectPlatform FP plat)))
   \<and> (plat \<noteq> [] \<longrightarrow> detectPlatform FP plat = plat)
   \<and> detectPlatform FP [] = fst (FP []) @ ''/'' @ snd (FP [])"
proof -
  have sup: "(\<exists>sp \<in> set supportedPlatforms. sublist sp p) =
     (sublist ''linux/amd64'' p \<or> sublist ''linux/arm64'' p)" for p
    by (simp add: supportedPlatforms_def)
  have main: "(ProcessPlatformAndConfig FP V pf conf plat envName =
      Inl (''Platform '' @ pf
           @ '' is not supported. Supported platforms are linux/amd64, linux/arm64''))
    \<longleftrightarrow> \<not> (sublist ''linux/amd64'' (detectPlatform FP plat)
           \<or> sublist ''linux/arm64'' (detectPlatform FP plat))"
  proof (cases "\<exists>sp \<in> set supportedPlatforms. sublist sp (detectPlatform FP plat)")
    case False
    from ProcessPlatformAndConfig_unsupported [OF False, of V pf conf envName] False
    show ?thesis by (simp only: sup simp_thms)
  next
    case True
    have "ProcessPlatformAndConfig FP V pf conf plat envName \<noteq>
      Inl (''Platform '' @ pf
           @ '' is not supported. Supported platforms are linux/amd64, linux/arm64'')"
    proof (cases "artifactLoop V conf envName [] (OCIArtifact conf)")
      case (Inl err)
      from artifactLoop_error_shape [OF Inl] obtain rest where "err = CHR ''C'' # rest" by blast
      with Inl show ?thesis
        by (simp add: ProcessPlatformAndConfig_supported [OF True])
    next
      case (Inr r)
      then show ?thesis
        by (cases r) (simp add: ProcessPlatformAndConfig_supported [OF True] split: option.splits)
    qed
    with True show ?thesis by (simp only: sup simp_thms)
  qed
  show ?thesis
    using main by (simp add: detectPlatform_def split: prod.splits)
qed

theorem platform_validation_by_containment_witness:
  "ProcessPlatformAndConfig exFindPlatform exValidate ''darwin/arm64''
      (exConfig [exArtifact ''svc'' ''svc:latest'']) ''darwin/arm64'' ''svc''
     = Inl ''Platform darwin/arm64 is not supported. Supported platforms are linux/amd64, linux/arm64''
   \<and> ProcessPlatformAndConfig exFindPlatform exValidate ''xlinux/arm64/v8''
      (exConfig [exArtifact ''svc'' ''svc:latest'']) ''xlinux/arm64/v8'' ''svc''
     \<noteq> Inl ''Platform xlinux/arm64/v8 is not supported. Supported platforms are linux/amd64, linux/arm64''"
proof -
  have a: "\<not> (sublist ''linux/amd64'' (detectPlatform exFindPlatform ''darwin/arm64'')
          \<or> sublist ''linux/arm64'' (detectPlatform exFindPlatform ''darwin/arm64''))"
    by (simp add: detectPlatform_def sublist_Cons_right)
  have b: "sublist ''linux/arm64'' (detectPlatform exFindPlatform ''xlinux/arm64/v8'')"
    by (simp add: detectPlatform_def sublist_Cons_right)
  from a b
    platform_validation_by_containment [of exFindPlatform exValidate "''darwin/arm64''"
      "exConfig [exArtifact ''svc'' ''svc:latest'']" "''darwin/arm64''" "''svc''"]
    platform_validation_by_containment [of exFindPlatform exValidate "''xlinux/arm64/v8''"
      "exConfig [exArtifact ''svc'' ''svc:latest'']" "''xlinux/arm64/v8''" "''svc''"]
  show ?thesis by simp
qed

text \<open>
  An accepted platform string is returned as it was given. \<open>linux/amd64/v2\<close> contains an
  allowlist entry, is accepted, and comes back unchanged, which is not one of the two
  supported \<open>os/arch\<close> strings.
\<close>

theorem returned_platform_not_canonical:
  "ProcessPlatformAndConfig exFindPlatform exValidate ''linux/amd64/v2''
      (exConfig [exArtifact ''svc'' ''svc:latest'']) ''linux/amd64/v2'' ''svc''
     = Inr (exArtifact ''svc'' ''svc:latest'', ''linux/amd64/v2'')
   \<and> ''linux/amd64/v2'' \<notin> set supportedPlatforms"
  by (simp add: ProcessPlatformAndConfig_def detectPlatform_def supportedPlatforms_def
      exConfig_def exArtifact_def exValidate_def)

text \<open>
  C9 (as the code has it). On success the returned platform string is the input string
  itself when that is not empty, and the host platform \<open>os/arch\<close> reported by
  \<open>FindPlatform\<close> when the input is empty; in both cases it contains a supported
  platform as a substring, without being normalised to it.
\<close>

theorem returned_platform_is_input_or_host:
  assumes "ProcessPlatformAndConfig FP V pf conf plat envName = Inr (a, p)"
  shows "p = (if plat = [] then fst (FP []) @ ''/'' @ snd (FP []) else plat)
         \<and> (sublist ''linux/amd64'' p \<or> sublist ''linux/arm64'' p)"
proof -
  have sup: "\<exists>sp \<in> set supportedPlatforms. sublist sp (detectPlatform FP plat)"
  proof (rule ccontr)
    assume "\<not> ?thesis"
    from ProcessPlatformAndConfig_unsupported [OF this, of V pf conf envName] assms
    show False by simp
  qed
  from assms have "p = detectPlatform FP plat"
    by (auto simp: ProcessPlatformAndConfig_supported [OF sup]
        split: sum.splits option.splits prod.splits)
  with sup show ?thesis
    by (auto simp: detectPlatform_def supportedPlatforms_def split: prod.splits)
qed

theorem returned_platform_is_input_or_host_witness:
  "ProcessPlatformAndConfig exFindPlatform exValidate []
      (exConfig [exArtifact ''svc'' ''svc:latest'']) [] ''svc''
     = Inr (exArtifact ''svc'' ''svc:latest'', ''linux/amd64'')
   \<and> ''linux/amd64'' = fst (exFindPlatform []) @ ''/'' @ snd (exFindPlatform [])"
proof -
  have r: "ProcessPlatformAndConfig exFindPlatform exValidate []
      (exConfig [exArtifact ''svc'' ''svc:latest'']) [] ''svc''
     = Inr (exArtifact ''svc'' ''svc:latest'', ''linux/amd64'')"
    by (simp add: ProcessPlatformAndConfig_def detectPlatform_def supportedPlatforms_def
      exConfig_def exArtifact_def exValidate_def exFindPlatform_def)
  from returned_platform_is_input_or_host [OF r] r show ?thesis by simp
qed

section \<open>Tag mutation\<close>

lemma getNewName_first_separator:
  "getNewName a t =
     Inr (if CHR '':'' \<in> set (Name a)
          then takeWhile (\<lambda>c. c \<noteq> CHR '':'') (Name a) @ '':'' @ t
          else Name a @ '':'' @ t)"
proof -
  obtain ps where
    "strings_Split (Name a) '':'' = takeWhile (\<lambda>x. x \<noteq> CHR '':'') (Name a) # ps"
    using strings_Split_char by blast
  then show ?thesis by (simp add: getNewName_def strings_Contains_char)
qed

text \<open>
  C3. With \<open>:\<close> as the \<open>repo:tag\<close> separator: when the name contains a separator, the
  new name is the part of the name before the (first) separator, then the separator and
  the new tag, so that everything after the separator is replaced; otherwise it is the
  name, the separator and the new tag. The error returned is always nil. In particular
  \<open>app\<close> with tag \<open>v2\<close> gives \<open>app:v2\<close>, and so does \<open>app:v1\<close> with tag \<open>v2\<close>.
\<close>

theorem getNewName_replaces_tag:
  "getNewName artifact t =
     Inr (if CHR '':'' \<in> set (Name artifact)
          then takeWhile (\<lambda>c. c \<noteq> CHR '':'') (Name artifact) @ '':'' @ t
          else Name artifact @ '':'' @ t)
   \<and> getNewName (exArtifact ''app'' ''app'') ''v2'' = Inr ''app:v2''
   \<and> getNewName (exArtifact ''app'' ''app:v1'') ''v2'' = Inr ''app:v2''"
proof -
  have "getNewName (exArtifact ''app'' ''app'') ''v2'' = Inr ''app:v2''"
    by (simp add: getNewName_first_separator exArtifact_def)
  moreover have "getNewName (exArtifact ''app'' ''app:v1'') ''v2'' = Inr ''app:v2''"
    by (simp add: getNewName_first_separator exArtifact_def)
  ultimately show ?thesis using getNewName_first_separator [of artifact t] by simp
qed

theorem getNewName_replaces_tag_witness:
  "getNewName (exArtifact ''web'' ''registry/web:1.0:old'') ''v2'' = Inr ''registry/web:v2''"
  using getNewName_replaces_tag [of "exArtifact ''web'' ''registry/web:1.0:old''" "''v2''"]
  by (simp add: exArtifact_def)

text \<open>
  C7. When no artifact of the configuration has the name \<open>oldName\<close>, \<open>ModifyConfig\<close>
  returns no error, leaves the configuration in memory as it was and attempts no file
  write. Conversely, a write is attempted only after a replacement: then some artifact
  had the name \<open>oldName\<close>, and the first such artifact is the one replaced.
\<close>

theorem ModifyConfig_no_match_is_noop:
  "(oldName \<notin> Name ` set (OCIArtifact config) \<longrightarrow>
      ModifyConfig w oldName artifact config = (None, config, []))
   \<and> (snd (snd (ModifyConfig w oldName artifact config)) \<noteq> [] \<longrightarrow>
        (\<exists>pre e post. OCIArtifact config = pre @ e # post \<and> Name e = oldName
            \<and> oldName \<notin> Name ` set pre
            \<and> OCIArtifact (fst (snd (ModifyConfig w oldName artifact config)))
                = pre @ artifact # post))"
proof (intro conjI impI)
  assume "oldName \<notin> Name ` set (OCIArtifact config)"
  then show "ModifyConfig w oldName artifact config = (None, config, [])"
    by (simp add: ModifyConfig_def modifyLoop_absent)
next
  assume wr: "snd (snd (ModifyConfig w oldName artifact config)) \<noteq> []"
  obtain ys u where m: "modifyLoop oldName artifact (OCIArtifact config) = (ys, u)"
    by (cases "modifyLoop oldName artifact (OCIArtifact config)")
  with wr have u: "u" by (cases u) (auto simp: ModifyConfig_def)
  from m u have c: "OCIArtifact (fst (snd (ModifyConfig w oldName artifact config))) = ys"
    by (auto simp: ModifyConfig_def Let_def split: sum.splits option.splits)
  from m u modifyLoop_updated [of oldName artifact "OCIArtifact config" ys] c
  show "\<exists>pre e post. OCIArtifact config = pre @ e # post \<and> Name e = oldName
            \<and> oldName \<notin> Name ` set pre
            \<and> OCIArtifact (fst (snd (ModifyConfig w oldName artifact config)))
                = pre @ artifact # post" by simp
qed

theorem ModifyConfig_no_match_is_noop_witness:
  "''web:1.0'' \<notin> Name ` set (OCIArtifact (exConfig [exArtifact ''svc'' ''svc:latest'']))
   \<and> ModifyConfig (exWorld exFile []) ''web:1.0'' (exArtifact ''web'' ''web:2.0'')
        (exConfig [exArtifact ''svc'' ''svc:latest''])
      = (None, exConfig [exArtifact ''svc'' ''svc:latest''], [])
   \<and> snd (snd (ModifyConfig (exWorld exFile []) ''svc:latest'' (exArtifact ''svc'' ''svc:v2'')
        (exConfig [exArtifact ''svc'' ''svc:latest''])))
      = [WriteFile ''bsf.hcl'' ''svc:v2'']"
proof -
  have a: "''web:1.0'' \<notin> Name ` set (OCIArtifact (exConfig [exArtifact ''svc'' ''svc:latest'']))"
    by (simp add: exConfig_def exArtifact_def)
  have b: "snd (snd (ModifyConfig (exWorld exFile []) ''svc:latest'' (exArtifact ''svc'' ''svc:v2'')
        (exConfig [exArtifact ''svc'' ''svc:latest''])))
      = [WriteFile ''bsf.hcl'' ''svc:v2'']"
    by (simp add: ModifyConfig_def WriteConfig_def exWorld_def exConfig_def exArtifact_def
        exEncode_def exWriteOk_def)
  from a b ModifyConfig_no_match_is_noop [of "''web:1.0''"
      "exConfig [exArtifact ''svc'' ''svc:latest'']" "exWorld exFile []"
      "exArtifact ''web'' ''web:2.0''"]
  show ?thesis by simp
qed

section \<open>Dockerfile-patch mode\<close>

text \<open>
  With \<open>--df-swap\<close> and no tag, a run in which the configuration document cannot be read
  stops at that failure: it prints the error and exits with status 1, and the usage hint
  for the tag is never printed.
\<close>

theorem df_swap_without_config_prints_no_hint:
  "dfSwap (exFlags [] True) \<and> tag (exFlags [] True) = []
   \<and> OCICmd (exWorld exNoFile [exArtifact ''svc'' ''svc:latest'']) (exFlags [] True) [''svc'']
      = ([Println ErrorStyle
            [''error: '', ''error: open bsf.hcl: no such file or directory'']], 1)"
  by (simp add: OCICmd_def ReadHclFile_def exWorld_def exNoFile_def exFlags_def fatal_def)

text \<open>
  C6 (as the code has it). Provided the calls into the world return, every run with
  \<open>--df-swap\<close> exits with status 1; the tag mutation is not applied (the artifact and the
  configuration pass through lines 187 to 200 unchanged and \<open>bsf.hcl\<close> is never written);
  and no build step is invoked. If moreover no tag is supplied, no file is written at
  all, and when an artifact label was given, the configuration was read and platform and
  artifact resolution succeeded, the run prints exactly the usage hint for \<open>--tag\<close>
  before exiting. (A run that fails earlier prints that failure instead.)
\<close>

theorem df_swap_terminates_without_mutation_or_build:
  assumes swap: "dfSwap f"
  shows "snd (OCICmd w f args) = 1
    \<and> mutateStage w f artifact conf = (None, artifact, conf, [])
    \<and> (\<forall>data. WriteFile ''bsf.hcl'' data \<notin> set (fst (OCICmd w f args)))
    \<and> (\<forall>c. Call c \<notin> set (fst (OCICmd w f args)))
    \<and> (tag f = [] \<longrightarrow>
          (\<forall>name data. WriteFile name data \<notin> set (fst (OCICmd w f args))))
    \<and> (tag f = [] \<and> args = arg0 # rest \<and> ReadHclFile w ''bsf.hcl'' = Inr conf
         \<and> ProcessPlatformAndConfig (FindPlatform w) (Validate w) (platform f) conf (platform f) arg0
               = Inr r
         \<longrightarrow> fst (OCICmd w f args) = [Println HintStyle [''hint:'', ''use --tag flag to define a tag'']])"
proof -
  note ev = OCICmd_dfSwap_events [OF swap, of w args arg0 rest conf r]
  from ev have evs: "\<forall>e \<in> set (fst (OCICmd w f args)).
          (\<exists>st msg. e = Println st msg)
          \<or> (tag f \<noteq> [] \<and> (\<exists>data. e = WriteFile (dockerfilePath (path f)) data))"
    by blast
  have a: "\<forall>data. WriteFile ''bsf.hcl'' data \<notin> set (fst (OCICmd w f args))"
    using evs dockerfilePath_not_config by fastforce
  have b: "\<forall>c. Call c \<notin> set (fst (OCICmd w f args))"
    using evs by fastforce
  have c: "tag f = [] \<longrightarrow> (\<forall>name data. WriteFile name data \<notin> set (fst (OCICmd w f args)))"
    using evs by fastforce
  from ev a b c mutateStage_dfSwap [OF swap] show ?thesis by blast
qed

theorem df_swap_terminates_without_mutation_or_build_witness:
  "dfSwap (exFlags [] True)
   \<and> OCICmd (exWorld exFile [exArtifact ''svc'' ''svc:latest'']) (exFlags [] True) [''svc'']
      = ([Println HintStyle [''hint:'', ''use --tag flag to define a tag'']], 1)"
proof -
  let ?w = "exWorld exFile [exArtifact ''svc'' ''svc:latest'']"
  let ?f = "exFlags [] True"
  have a: "dfSwap ?f" by (simp add: exFlags_def)
  have b: "tag ?f = []" by (simp add: exFlags_def)
  have c: "ReadHclFile ?w ''bsf.hcl'' = Inr (exConfig [exArtifact ''svc'' ''svc:latest''])"
    by (simp add: ReadHclFile_def exWorld_def exFile_def exReadConfig_def)
  have d: "ProcessPlatformAndConfig (FindPlatform ?w) (Validate ?w) (platform ?f)
             (exConfig [exArtifact ''svc'' ''svc:latest'']) (platform ?f) ''svc''
           = Inr (exArtifact ''svc'' ''svc:latest'', ''linux/amd64'')"
    by (simp add: ProcessPlatformAndConfig_def detectPlatform_def supportedPlatforms_def
        exWorld_def exFlags_def exConfig_def exArtifact_def exValidate_def exFindPlatform_def)
  from df_swap_terminates_without_mutation_or_build [OF a, where w = ?w and args = "[''svc'']"
      and ?arg0.0 = "''svc''" and rest = "[]" and conf = "exConfig [exArtifact ''svc'' ''svc:latest'']"
      and r = "(exArtifact ''svc'' ''svc:latest'', ''linux/amd64'')"]
    b c d
  have "snd (OCICmd ?w ?f [''svc'']) = 1
      \<and> fst (OCICmd ?w ?f [''svc'']) = [Println HintStyle [''hint:'', ''use --tag flag to define a tag'']]"
    by simp
  with a show ?thesis by (simp add: prod_eq_iff)
qed

section \<open>Build target naming\<close>

lemma genOCIAttrName_shape:
  "genOCIAttrName dev env plat artifact =
     ''bsf/.#ociImages.''
     @ (if plat = ''linux/amd64'' then ''x86_64-linux''
        else if plat = ''linux/arm64'' then ''aarch64-linux'' else ''unknown'')
     @ ''.ociImage_'' @ env @ ''_''
     @ (if env = ''pkgs'' then (if dev then ''dev-as-dir'' else ''runtime-as-dir'')
        else (if dev then ''app_with_dev-as-dir'' else ''app-as-dir''))"
  by (simp add: genOCIAttrName_def Let_def)

lemma genOCIAttrName_pkgs:
  "\<exists>pre. genOCIAttrName dev ''pkgs'' plat artifact =
     pre @ (if dev then ''_pkgs_dev-as-dir'' else ''_pkgs_runtime-as-dir'')"
proof -
  let ?arch = "if plat = ''linux/amd64'' then ''x86_64-linux''
        else if plat = ''linux/arm64'' then ''aarch64-linux'' else ''unknown''"
  have "genOCIAttrName dev ''pkgs'' plat artifact =
     (''bsf/.#ociImages.'' @ ?arch @ ''.ociImage'') @
       (if dev then ''_pkgs_dev-as-dir'' else ''_pkgs_runtime-as-dir'')"
    by (simp add: genOCIAttrName_def Let_def)
  then show ?thesis by blast
qed

text \<open>
  C4. \<open>genOCIAttrName\<close> is a total function of the label, the platform string and the
  development-dependencies flag (the source has no failing path: a switch with a
  default, string formatting and concatenation). The attribute path starts with
  \<open>bsf/.#ociImages.\<close> followed by the architecture segment: \<open>x86_64-linux\<close> for platform
  \<open>linux/amd64\<close>, \<open>aarch64-linux\<close> for \<open>linux/arm64\<close>, and \<open>unknown\<close> for any other platform
  string. With label \<open>pkgs\<close> the path ends in \<open>dev-as-dir\<close> when the flag is set and in
  \<open>runtime-as-dir\<close> when it is not. The two examples of the specification are evaluated
  in full.
\<close>

theorem genOCIAttrName_naming:
  "prefix ''bsf/.#ociImages.x86_64-linux.ociImage_''
     (genOCIAttrName dev env ''linux/amd64'' artifact)
   \<and> prefix ''bsf/.#ociImages.aarch64-linux.ociImage_''
     (genOCIAttrName dev env ''linux/arm64'' artifact)
   \<and> (plat \<noteq> ''linux/amd64'' \<and> plat \<noteq> ''linux/arm64'' \<longrightarrow>
        prefix ''bsf/.#ociImages.unknown.ociImage_'' (genOCIAttrName dev env plat artifact))
   \<and> suffix ''_pkgs_dev-as-dir'' (genOCIAttrName True ''pkgs'' plat artifact)
   \<and> suffix ''_pkgs_runtime-as-dir'' (genOCIAttrName False ''pkgs'' plat artifact)
   \<and> genOCIAttrName False ''pkgs'' ''linux/amd64'' artifact
       = ''bsf/.#ociImages.x86_64-linux.ociImage_pkgs_runtime-as-dir''
   \<and> genOCIAttrName True ''pkgs'' ''linux/arm64'' artifact
       = ''bsf/.#ociImages.aarch64-linux.ociImage_pkgs_dev-as-dir''"
proof -
  have s1: "suffix ''_pkgs_dev-as-dir'' (genOCIAttrName True ''pkgs'' plat artifact)"
    using genOCIAttrName_pkgs [of True plat artifact] by (auto simp: suffix_def)
  have s2: "suffix ''_pkgs_runtime-as-dir'' (genOCIAttrName False ''pkgs'' plat artifact)"
    using genOCIAttrName_pkgs [of False plat artifact] by (auto simp: suffix_def)
  show ?thesis
    using s1 s2 by (simp add: genOCIAttrName_shape)
qed

theorem genOCIAttrName_naming_witness:
  "''darwin/arm64'' \<noteq> ''linux/amd64'' \<and> ''darwin/arm64'' \<noteq> ''linux/arm64''
   \<and> prefix ''bsf/.#ociImages.unknown.ociImage_''
        (genOCIAttrName True ''app'' ''darwin/arm64'' (exArtifact ''app'' ''svc:latest''))
   \<and> suffix ''_pkgs_dev-as-dir''
        (genOCIAttrName True ''pkgs'' ''darwin/arm64'' (exArtifact ''app'' ''svc:latest''))"
  using genOCIAttrName_naming [of True "''app''" "exArtifact ''app'' ''svc:latest''" "''darwin/arm64''"]
  by simp

text \<open>
  C10. The artifact definition passed to \<open>genOCIAttrName\<close> has no influence on the name:
  for the same label, platform and development-dependencies flag, any two artifacts give
  the same build attribute.
\<close>

theorem genOCIAttrName_ignores_artifact:
  "genOCIAttrName dev env plat a1 = genOCIAttrName dev env plat a2"
  by (simp add: genOCIAttrName_def)

end
